theory Spec2Isabelle
  imports Main "HOL-Library.Multiset" "HOL-Library.Char_ord" "HOL-Library.List_Lexorder"
begin

section \<open>The lesson validator of scripts/validate_lessons.py\<close>

text \<open>
  The script reads a curriculum catalog (a JSON document), checks every lesson against
  the authoring rules, checks that every (grade, strand) pair has all three lesson
  variants, and prints either the list of violations or a one-line summary.

  The embedding follows the Python text. The script is duck-typed over what
  \<^verbatim>\<open>json.loads\<close> returns, so the document is a datatype of parsed JSON values
  and every operation that Python may refuse (a \<^verbatim>\<open>.get\<close> on something that is
  not a dict, the hash of a list, the iteration of a number) returns an error value.
\<close>

subsection \<open>Parsed JSON values\<close>

text \<open>
  What \<^verbatim>\<open>json.loads\<close> builds: \<^verbatim>\<open>None\<close>, \<^verbatim>\<open>bool\<close>, \<^verbatim>\<open>int\<close>,
  \<^verbatim>\<open>str\<close>, \<^verbatim>\<open>list\<close> and \<^verbatim>\<open>dict\<close>. A dict is the list of its items in
  insertion order; the parser leaves no key twice. A \<^verbatim>\<open>str\<close> is the list of its
  characters, a character being its code point, from U+0000 to U+00FF; the order of the
  characters is the order of the code points, which is how Python compares strings. Two
  kinds of values are not part of the model: JSON numbers with a fraction or an exponent
  (Python floats), and strings with a character beyond U+00FF.
\<close>

datatype json =
    JNull
  | JBool bool
  | JInt int
  | JStr string
  | JArr "json list"
  | JObj "(string \<times> json) list"

datatype py_error = AttributeError | TypeError | SystemExit string

type_synonym dict = "(string \<times> json) list"

text \<open>\<^verbatim>\<open>d.get(k, default)\<close> on a dict.\<close>

definition dict_get :: "dict \<Rightarrow> string \<Rightarrow> json \<Rightarrow> json" where
  "dict_get d k dflt = (case map_of d k of None \<Rightarrow> dflt | Some v \<Rightarrow> v)"

text \<open>Truth value testing: \<^verbatim>\<open>None\<close>, \<^verbatim>\<open>False\<close>, zero and empty containers are false.\<close>

fun py_truthy :: "json \<Rightarrow> bool" where
  "py_truthy JNull = False"
| "py_truthy (JBool b) = b"
| "py_truthy (JInt n) = (n \<noteq> 0)"
| "py_truthy (JStr s) = (s \<noteq> [])"
| "py_truthy (JArr xs) = (xs \<noteq> [])"
| "py_truthy (JObj d) = (d \<noteq> [])"

text \<open>Lists and dicts have no hash: using one as a set element or dict key raises TypeError.\<close>

fun py_hashable :: "json \<Rightarrow> bool" where
  "py_hashable (JArr xs) = False"
| "py_hashable (JObj d) = False"
| "py_hashable v = True"

text \<open>
  Equality of hashable values, as sets and dicts use it: \<^verbatim>\<open>True == 1\<close> and
  \<^verbatim>\<open>False == 0\<close>, everything else is equal to itself only.
\<close>

fun py_num :: "json \<Rightarrow> int option" where
  "py_num (JBool b) = Some (if b then 1 else 0)"
| "py_num (JInt n) = Some n"
| "py_num v = None"

definition py_eq :: "json \<Rightarrow> json \<Rightarrow> bool" where
  "py_eq a b = (case py_num a of
                  Some m \<Rightarrow> (case py_num b of Some n \<Rightarrow> m = n | None \<Rightarrow> False)
                | None \<Rightarrow> (case py_num b of Some n \<Rightarrow> False | None \<Rightarrow> a = b))"

text \<open>A Python set is the list of its elements, no two of them equal; \<^verbatim>\<open>x in s\<close>.\<close>

definition py_in :: "json \<Rightarrow> json list \<Rightarrow> bool" where
  "py_in x s = list_ex (\<lambda>y. py_eq y x) s"

text \<open>\<^verbatim>\<open>s.add(x)\<close>: an element equal to one already there is not stored again.\<close>

definition py_set_add :: "json list \<Rightarrow> json \<Rightarrow> json list" where
  "py_set_add s x = (if py_in x s then s else s @ [x])"

text \<open>\<^verbatim>\<open>s == t\<close> on sets: the same size, and every element of \<open>s\<close> is in \<open>t\<close>.\<close>

definition py_set_eq :: "json list \<Rightarrow> json list \<Rightarrow> bool" where
  "py_set_eq s t = (length s = length t \<and> list_all (\<lambda>x. py_in x t) s)"

text \<open>Iteration: a list gives its elements, a dict its keys, a str its characters.\<close>

fun py_iter :: "json \<Rightarrow> py_error + json list" where
  "py_iter (JArr xs) = Inr xs"
| "py_iter (JObj d) = Inr (map (\<lambda>kv. JStr (fst kv)) d)"
| "py_iter (JStr s) = Inr (map (\<lambda>c. JStr [c]) s)"
| "py_iter v = Inl TypeError"

fun py_len :: "json \<Rightarrow> py_error + nat" where
  "py_len (JArr xs) = Inr (length xs)"
| "py_len (JObj d) = Inr (length d)"
| "py_len (JStr s) = Inr (length s)"
| "py_len v = Inl TypeError"

text \<open>\<^verbatim>\<open>k in s\<close> for strings: \<open>k\<close> occurs in \<open>s\<close> as a contiguous piece.\<close>

fun py_substr :: "string \<Rightarrow> string \<Rightarrow> bool" where
  "py_substr k [] = (k = [])"
| "py_substr k (c # cs) = (take (length k) (c # cs) = k \<or> py_substr k cs)"

text \<open>
  \<^verbatim>\<open>k in v\<close> for a string \<open>k\<close>: a key of a dict, an element of a list, a piece of a
  string; any other value is "not iterable".
\<close>

fun py_contains :: "json \<Rightarrow> string \<Rightarrow> py_error + bool" where
  "py_contains (JObj d) k = Inr (k \<in> set (map fst d))"
| "py_contains (JArr xs) k = Inr (JStr k \<in> set xs)"
| "py_contains (JStr s) k = Inr (py_substr k s)"
| "py_contains v k = Inl TypeError"

subsection \<open>Text of values\<close>

text \<open>\<^verbatim>\<open>str\<close> of an int: decimal digits, a minus sign for a negative one.\<close>

definition digit_char :: "nat \<Rightarrow> char" where
  "digit_char n = ''0123456789abcdef'' ! n"

fun str_nat :: "nat \<Rightarrow> string" where
  "str_nat n = (if n < 10 then [digit_char n] else str_nat (n div 10) @ [digit_char (n mod 10)])"

declare str_nat.simps [simp del]

definition str_int :: "int \<Rightarrow> string" where
  "str_int i = (if i < 0 then CHR ''-'' # str_nat (nat (- i)) else str_nat (nat i))"

text \<open>
  \<^verbatim>\<open>repr\<close> of a str: single quotes, unless the text has a single quote and no double
  quote. The quote and the backslash are escaped; tab, newline and carriage return are
  written with their letters; every other character that Python does not count as
  printable is written \<^verbatim>\<open>\xhh\<close> with two lower-case hexadecimal digits. Up to
  U+00FF these are the control characters U+0000 to U+001F and U+007F to U+009F, the
  no-break space U+00A0 and the soft hyphen U+00AD. All other characters are copied.
\<close>

definition py_printable :: "char \<Rightarrow> bool" where
  "py_printable c =
     (32 \<le> (of_char c :: nat) \<and> (of_char c :: nat) < 127
      \<or> 160 < (of_char c :: nat) \<and> c \<noteq> CHR 0xAD)"

definition repr_char :: "char \<Rightarrow> char \<Rightarrow> string" where
  "repr_char q c =
     (if c = q \<or> c = CHR 0x5C then [CHR 0x5C, c]
      else if c = CHR 0x09 then [CHR 0x5C, CHR ''t'']
      else if c = CHR 0x0A then [CHR 0x5C, CHR ''n'']
      else if c = CHR 0x0D then [CHR 0x5C, CHR ''r'']
      else if \<not> py_printable c
        then [CHR 0x5C, CHR ''x'', digit_char (of_char c div 16), digit_char (of_char c mod 16)]
      else [c])"

definition repr_str :: "string \<Rightarrow> string" where
  "repr_str s =
     (let q = (if CHR 0x27 \<in> set s \<and> CHR 0x22 \<notin> set s then CHR 0x22 else CHR 0x27)
      in [q] @ concat (map (repr_char q) s) @ [q])"

text \<open>\<^verbatim>\<open>sep.join(xs)\<close> on strings.\<close>

fun py_join :: "string \<Rightarrow> string list \<Rightarrow> string" where
  "py_join sep [] = []"
| "py_join sep [x] = x"
| "py_join sep (x # y # ys) = x @ sep @ py_join sep (y # ys)"

fun py_repr :: "json \<Rightarrow> string" where
  "py_repr JNull = ''None''"
| "py_repr (JBool b) = (if b then ''True'' else ''False'')"
| "py_repr (JInt n) = str_int n"
| "py_repr (JStr s) = repr_str s"
| "py_repr (JArr xs) = ''['' @ py_join '', '' (map py_repr xs) @ '']''"
| "py_repr (JObj d) =
     ''{'' @ py_join '', '' (map (\<lambda>kv. repr_str (fst kv) @ '': '' @ py_repr (snd kv)) d) @ ''}''"

text \<open>What an f-string puts for \<^verbatim>\<open>{v}\<close>: a str as it is, anything else as its repr.\<close>

fun py_str :: "json \<Rightarrow> string" where
  "py_str (JStr s) = s"
| "py_str v = py_repr v"

subsection \<open>The validator\<close>

definition REQUIRED_VARIANTS :: "string list" where
  "REQUIRED_VARIANTS = [''practice'', ''challenge'', ''remediation'']"

definition REQUIRED_DIFFICULTIES :: "string list" where
  "REQUIRED_DIFFICULTIES = [''emerging'', ''developing'', ''secure'', ''extending'']"

text \<open>
  Both constants are Python sets of strings. The order in which a process iterates such a
  set depends on its hash seed, so every function below that iterates one takes that
  order as its first argument \<open>order\<close>: \<open>order xs\<close> is the sequence in which the set
  with the elements \<open>xs\<close> is iterated, some rearrangement of \<open>xs\<close>.
\<close>

definition set_order :: "(string list \<Rightarrow> string list) \<Rightarrow> bool" where
  "set_order order = (\<forall>xs. mset (order xs) = mset xs)"

text \<open>\<^verbatim>\<open>sorted(s)\<close> for a set of strings.\<close>

definition py_sorted :: "(string list \<Rightarrow> string list) \<Rightarrow> string list \<Rightarrow> string list" where
  "py_sorted order s = sort (order s)"

text \<open>
  \<^verbatim>\<open>variants_by_strand\<close>, a defaultdict of sets keyed by the tuple (grade, strand):
  the list of its items in insertion order. Two tuples are the same key when their
  components are equal.
\<close>

type_synonym strand_key = "json \<times> json"
type_synonym groups = "(strand_key \<times> json list) list"

definition key_eq :: "strand_key \<Rightarrow> strand_key \<Rightarrow> bool" where
  "key_eq a b = (py_eq (fst a) (fst b) \<and> py_eq (snd a) (snd b))"

text \<open>\<^verbatim>\<open>variants_by_strand[key].add(v)\<close>: a new key gets an empty set first.\<close>

fun add_variant :: "groups \<Rightarrow> strand_key \<Rightarrow> json \<Rightarrow> groups" where
  "add_variant [] key v = [(key, [v])]"
| "add_variant ((k, vs) # rest) key v =
     (if key_eq k key then (k, py_set_add vs v) # rest
      else (k, vs) # add_variant rest key v)"

record vstate =
  errors :: "string list"
  variants_by_strand :: groups

text \<open>\<^verbatim>\<open>if cond: errors.append(msg)\<close>\<close>

definition append_if :: "bool \<Rightarrow> string \<Rightarrow> string list \<Rightarrow> string list" where
  "append_if cond msg errs = (if cond then errs @ [msg] else errs)"

text \<open>
  The loop over \<^verbatim>\<open>enumerate(items)\<close>; \<open>lid\<close> is the text of the lesson id and
  \<open>index\<close> the position of the first item of the list, counted from 0. An item that is
  not a dict has no \<^verbatim>\<open>.get\<close>.
\<close>

fun check_items :: "string \<Rightarrow> nat \<Rightarrow> json list \<Rightarrow> string list \<Rightarrow> py_error + string list" where
  "check_items lid index [] errs = Inr errs"
| "check_items lid index (item # rest) errs =
     (case item of
        JObj d \<Rightarrow>
          (let prefix = lid @ '' item '' @ str_int (int index + 1);
               errs1 = append_if (\<not> py_truthy (dict_get d ''hints'' JNull))
                         (prefix @ '': must include at least one hint'') errs;
               errs2 = append_if (\<not> py_truthy (dict_get d ''scaffolds'' JNull))
                         (prefix @ '': must include at least one scaffold'') errs1
           in check_items lid (index + 1) rest errs2)
      | _ \<Rightarrow> Inl AttributeError)"

text \<open>The body of the loop over the lessons (lines 32 to 62), on one lesson.\<close>

definition visit_lesson ::
  "(string list \<Rightarrow> string list) \<Rightarrow> vstate \<Rightarrow> json \<Rightarrow> py_error + vstate" where
  "visit_lesson order st lesson =
     (case lesson of
        JObj d \<Rightarrow>
          (let lid = py_str (dict_get d ''id'' (JStr ''<missing>''));
               grade = dict_get d ''grade'' (JStr ''<missing>'');
               strand = dict_get d ''strandID'' (JStr ''<missing>'');
               variant = dict_get d ''variant'' JNull;
               difficulty = dict_get d ''difficulty'' JNull
           in if \<not> (py_hashable grade \<and> py_hashable strand \<and> py_hashable variant)
              then Inl TypeError
              else
                (let vbs = add_variant (variants_by_strand st) (grade, strand) variant;
                     e1 = append_if (\<not> py_truthy (dict_get d ''objectives'' JNull))
                            (lid @ '': objectives must not be empty'') (errors st);
                     e2 = append_if (\<not> py_in variant (map JStr REQUIRED_VARIANTS))
                            (lid @ '': variant '' @ [CHR 0x27] @ py_str variant @ [CHR 0x27]
                               @ '' is not one of ''
                               @ py_repr (JArr (map JStr (py_sorted order REQUIRED_VARIANTS))))
                            e1
                 in if \<not> py_hashable difficulty then Inl TypeError
                    else
                      (let e3 = append_if (\<not> py_in difficulty (map JStr REQUIRED_DIFFICULTIES))
                                  (lid @ '': difficulty '' @ [CHR 0x27] @ py_str difficulty
                                     @ [CHR 0x27] @ '' is not recognised'')
                                  e2;
                           e4 = append_if (\<not> py_truthy (dict_get d ''hints'' JNull))
                                  (lid @ '': must provide at least one lesson hint'') e3;
                           e5 = append_if (\<not> py_truthy (dict_get d ''scaffolds'' JNull))
                                  (lid @ '': must provide at least one lesson scaffold'') e4;
                           m = dict_get d ''masteryRule'' JNull;
                           mastery = (if py_truthy m then m else JObj [])
                       in case py_contains mastery ''scoreThreshold'' of
                            Inl e \<Rightarrow> Inl e
                          | Inr has_threshold \<Rightarrow>
                              (let e6 = append_if (\<not> has_threshold)
                                          (lid @ '': masteryRule missing scoreThreshold'') e5
                               in case py_contains mastery ''minimumItems'' of
                                    Inl e \<Rightarrow> Inl e
                                  | Inr has_minimum \<Rightarrow>
                                      (let e7 = append_if (\<not> has_minimum)
                                                  (lid @ '': masteryRule missing minimumItems'') e6
                                       in case py_iter (dict_get d ''items'' (JArr [])) of
                                            Inl e \<Rightarrow> Inl e
                                          | Inr items \<Rightarrow>
                                              (case check_items lid 0 items e7 of
                                                 Inl e \<Rightarrow> Inl e
                                               | Inr e8 \<Rightarrow>
                                                   Inr \<lparr>errors = e8,
                                                        variants_by_strand = vbs\<rparr>))))))
      | _ \<Rightarrow> Inl AttributeError)"

text \<open>The loop over the lessons: an exception in one lesson ends the run.\<close>

fun scan_lessons ::
  "(string list \<Rightarrow> string list) \<Rightarrow> vstate \<Rightarrow> json list \<Rightarrow> py_error + vstate" where
  "scan_lessons order st [] = Inr st"
| "scan_lessons order st (lesson # rest) =
     (case visit_lesson order st lesson of
        Inl e \<Rightarrow> Inl e
      | Inr st' \<Rightarrow> scan_lessons order st' rest)"

text \<open>The loop over \<^verbatim>\<open>variants_by_strand.items()\<close> (lines 64 to 69).\<close>

fun report_coverage ::
  "(string list \<Rightarrow> string list) \<Rightarrow> string list \<Rightarrow> groups \<Rightarrow> string list" where
  "report_coverage order errs [] = errs"
| "report_coverage order errs (((grade, strand), variants) # rest) =
     report_coverage order
       (if \<not> py_set_eq variants (map JStr REQUIRED_VARIANTS)
        then (let missing = filter (\<lambda>r. \<not> py_in (JStr r) variants) REQUIRED_VARIANTS
              in errs @ [py_str grade @ ''/'' @ py_str strand @ '' missing lesson variants: ''
                           @ py_join '', '' (py_sorted order missing)])
        else errs)
       rest"

definition validate_lessons ::
  "(string list \<Rightarrow> string list) \<Rightarrow> json \<Rightarrow> py_error + string list" where
  "validate_lessons order catalog =
     (case catalog of
        JObj doc \<Rightarrow>
          (case py_iter (dict_get doc ''lessons'' (JArr [])) of
             Inl e \<Rightarrow> Inl e
           | Inr lessons \<Rightarrow>
               (case scan_lessons order \<lparr>errors = [], variants_by_strand = []\<rparr> lessons of
                  Inl e \<Rightarrow> Inl e
                | Inr st \<Rightarrow> Inr (report_coverage order (errors st) (variants_by_strand st))))
      | _ \<Rightarrow> Inl AttributeError)"

subsection \<open>Loading and reporting\<close>

text \<open>
  What reading and parsing the file at the path gave: no such file, text that is not
  JSON (with the parser's message), or the parsed document.
\<close>

datatype file_read = FileNotFound | NotJSON string | Parsed json

definition load_catalog :: "string \<Rightarrow> file_read \<Rightarrow> py_error + json" where
  "load_catalog path r =
     (case r of
        FileNotFound \<Rightarrow> Inl (SystemExit (''Catalog not found at '' @ path))
      | NotJSON exc \<Rightarrow>
          Inl (SystemExit (''Catalog at '' @ path @ '' is not valid JSON: '' @ exc))
      | Parsed data \<Rightarrow> Inr data)"

text \<open>
  The set comprehension \<^verbatim>\<open>{lesson.get("grade") for lesson in lessons}\<close>: each lesson
  needs a \<^verbatim>\<open>.get\<close>, each grade a hash.
\<close>

fun grade_set :: "json list \<Rightarrow> json list \<Rightarrow> py_error + json list" where
  "grade_set acc [] = Inr acc"
| "grade_set acc (lesson # rest) =
     (case lesson of
        JObj d \<Rightarrow>
          (let g = dict_get d ''grade'' JNull
           in if py_hashable g then grade_set (py_set_add acc g) rest else Inl TypeError)
      | _ \<Rightarrow> Inl AttributeError)"

fun str_of :: "json \<Rightarrow> string option" where
  "str_of (JStr s) = Some s"
| "str_of v = None"

text \<open>
  \<^verbatim>\<open>', '.join(sorted(grades))\<close>. \<^verbatim>\<open>sorted\<close> raises TypeError when it compares a
  str with a value of another type, or \<^verbatim>\<open>None\<close> with anything; where it returns,
  \<^verbatim>\<open>join\<close> raises TypeError on the first element that is not a str. So the text is
  there only when every grade is a str.
\<close>

definition join_sorted_grades ::
  "(string list \<Rightarrow> string list) \<Rightarrow> json list \<Rightarrow> py_error + string" where
  "join_sorted_grades order gs =
     (if list_all (\<lambda>g. str_of g \<noteq> None) gs
      then Inr (py_join '', '' (py_sorted order (map py_str gs)))
      else Inl TypeError)"

text \<open>
  \<^verbatim>\<open>main\<close> after the arguments are parsed: the lines printed and the value returned,
  or the exception that leaves it.
\<close>

definition main ::
  "(string list \<Rightarrow> string list) \<Rightarrow> string \<Rightarrow> file_read \<Rightarrow> py_error + (string list \<times> int)" where
  "main order path r =
     (case load_catalog path r of
        Inl e \<Rightarrow> Inl e
      | Inr catalog \<Rightarrow>
          (case validate_lessons order catalog of
             Inl e \<Rightarrow> Inl e
           | Inr errs \<Rightarrow>
               if errs \<noteq> []
               then Inr (''Lesson validation failed:'' # map (\<lambda>message. ''  - '' @ message) errs, 1)
               else
                 (case catalog of
                    JObj doc \<Rightarrow>
                      (let lessons = dict_get doc ''lessons'' (JArr [])
                       in case py_iter lessons of
                            Inl e \<Rightarrow> Inl e
                          | Inr ls \<Rightarrow>
                              (case grade_set [] ls of
                                 Inl e \<Rightarrow> Inl e
                               | Inr gs \<Rightarrow>
                                   (case py_len lessons of
                                      Inl e \<Rightarrow> Inl e
                                    | Inr n \<Rightarrow>
                                        (case join_sorted_grades order gs of
                                           Inl e \<Rightarrow> Inl e
                                         | Inr joined \<Rightarrow>
                                             Inr ([''Validated '' @ str_int (int n)
                                                     @ '' lessons across grades: '' @ joined],
                                                  0)))))
                  | _ \<Rightarrow> Inl AttributeError)))"

text \<open>
  \<^verbatim>\<open>sys.exit(main())\<close>: the status of the process is the value \<^verbatim>\<open>main\<close> returns;
  an exception that nothing catches, and a \<^verbatim>\<open>SystemExit\<close> that carries a message,
  end the process with status 1.
\<close>

definition exit_status :: "py_error + (string list \<times> int) \<Rightarrow> int" where
  "exit_status r = (case r of Inl e \<Rightarrow> 1 | Inr out \<Rightarrow> snd out)"

subsection \<open>The rules as the specification words them\<close>

text \<open>
  The definitions of this subsection are not translations of the source: they word the
  rules of the specification, one definition per rule, on a lesson taken alone and on
  the lessons of a group taken together. The theorems compare the validator with them.
\<close>

definition lesson_fields :: "json \<Rightarrow> dict" where
  "lesson_fields lesson = (case lesson of JObj d \<Rightarrow> d | _ \<Rightarrow> [])"

definition catalog_lessons :: "json \<Rightarrow> json list" where
  "catalog_lessons catalog =
     (case py_iter (dict_get (lesson_fields catalog) ''lessons'' (JArr [])) of
        Inl e \<Rightarrow> []
      | Inr ls \<Rightarrow> ls)"

definition lesson_id_text :: "dict \<Rightarrow> string" where
  "lesson_id_text d = py_str (dict_get d ''id'' (JStr ''<missing>''))"

definition lesson_key :: "json \<Rightarrow> strand_key" where
  "lesson_key lesson =
     (dict_get (lesson_fields lesson) ''grade'' (JStr ''<missing>''),
      dict_get (lesson_fields lesson) ''strandID'' (JStr ''<missing>''))"

definition lesson_variant :: "json \<Rightarrow> json" where
  "lesson_variant lesson = dict_get (lesson_fields lesson) ''variant'' JNull"

text \<open>Rule 1: objectives present and not empty.\<close>

definition objectives_violation :: "dict \<Rightarrow> string list" where
  "objectives_violation d =
     (if py_truthy (dict_get d ''objectives'' JNull) then []
      else [lesson_id_text d @ '': objectives must not be empty''])"

text \<open>Rule 2: the variant is one of the three; the message has the value and the allowed set.\<close>

definition variant_violation :: "dict \<Rightarrow> string list" where
  "variant_violation d =
     (if dict_get d ''variant'' JNull \<in> JStr ` set REQUIRED_VARIANTS then []
      else [lesson_id_text d @ '': variant '' @ [CHR 0x27] @ py_str (dict_get d ''variant'' JNull)
              @ [CHR 0x27] @ '' is not one of ''
              @ py_repr (JArr (map JStr (sort REQUIRED_VARIANTS)))])"

text \<open>Rule 3: the difficulty is one of the four.\<close>

definition difficulty_violation :: "dict \<Rightarrow> string list" where
  "difficulty_violation d =
     (if dict_get d ''difficulty'' JNull \<in> JStr ` set REQUIRED_DIFFICULTIES then []
      else [lesson_id_text d @ '': difficulty '' @ [CHR 0x27]
              @ py_str (dict_get d ''difficulty'' JNull) @ [CHR 0x27] @ '' is not recognised''])"

text \<open>Rules 4 and 5: hints and scaffolds present and not empty.\<close>

definition hints_violation :: "dict \<Rightarrow> string list" where
  "hints_violation d =
     (if py_truthy (dict_get d ''hints'' JNull) then []
      else [lesson_id_text d @ '': must provide at least one lesson hint''])"

definition scaffolds_violation :: "dict \<Rightarrow> string list" where
  "scaffolds_violation d =
     (if py_truthy (dict_get d ''scaffolds'' JNull) then []
      else [lesson_id_text d @ '': must provide at least one lesson scaffold''])"

text \<open>Rule 6: the mastery rule has both keys, each reported on its own.\<close>

definition mastery_has :: "dict \<Rightarrow> string \<Rightarrow> bool" where
  "mastery_has d k =
     (let m = dict_get d ''masteryRule'' JNull
      in py_contains (if py_truthy m then m else JObj []) k = Inr True)"

definition threshold_violation :: "dict \<Rightarrow> string list" where
  "threshold_violation d =
     (if mastery_has d ''scoreThreshold'' then []
      else [lesson_id_text d @ '': masteryRule missing scoreThreshold''])"

definition minimum_violation :: "dict \<Rightarrow> string list" where
  "minimum_violation d =
     (if mastery_has d ''minimumItems'' then []
      else [lesson_id_text d @ '': masteryRule missing minimumItems''])"

text \<open>
  Rule 7: every item has hints and scaffolds; the message has the lesson id and the
  position of the item, counted from 1. The argument is the pair of the position counted
  from 0 and the item.
\<close>

definition item_violations :: "string \<Rightarrow> nat \<times> json \<Rightarrow> string list" where
  "item_violations lid p =
     (if py_truthy (dict_get (lesson_fields (snd p)) ''hints'' JNull) then []
      else [lid @ '' item '' @ str_int (int (fst p) + 1) @ '': must include at least one hint''])
     @ (if py_truthy (dict_get (lesson_fields (snd p)) ''scaffolds'' JNull) then []
        else [lid @ '' item '' @ str_int (int (fst p) + 1)
                @ '': must include at least one scaffold''])"

definition lesson_items :: "dict \<Rightarrow> json list" where
  "lesson_items d =
     (case py_iter (dict_get d ''items'' (JArr [])) of Inl e \<Rightarrow> [] | Inr items \<Rightarrow> items)"

definition items_violations :: "dict \<Rightarrow> string list" where
  "items_violations d =
     concat (map (item_violations (lesson_id_text d)) (enumerate 0 (lesson_items d)))"

text \<open>The violations of one lesson: those of each rule, in the order of the rules.\<close>

definition lesson_violations :: "json \<Rightarrow> string list" where
  "lesson_violations lesson =
     (let d = lesson_fields lesson
      in objectives_violation d @ variant_violation d @ difficulty_violation d
         @ hints_violation d @ scaffolds_violation d
         @ threshold_violation d @ minimum_violation d @ items_violations d)"

text \<open>
  Rule 8. The groups are named by the (grade, strand) pairs of the lessons, each pair at
  its first occurrence; the variants seen in a group are those of the lessons whose pair
  is the group's.
\<close>

fun first_keys :: "strand_key list \<Rightarrow> strand_key list" where
  "first_keys [] = []"
| "first_keys (k # ks) = k # filter (\<lambda>k'. \<not> key_eq k k') (first_keys ks)"

definition group_keys :: "json list \<Rightarrow> strand_key list" where
  "group_keys lessons = first_keys (map lesson_key lessons)"

definition seen_variants :: "json list \<Rightarrow> strand_key \<Rightarrow> json set" where
  "seen_variants lessons k =
     set (map lesson_variant (filter (\<lambda>l. key_eq k (lesson_key l)) lessons))"

definition coverage_message :: "json list \<Rightarrow> strand_key \<Rightarrow> string" where
  "coverage_message lessons k =
     py_str (fst k) @ ''/'' @ py_str (snd k) @ '' missing lesson variants: ''
     @ py_join '', ''
         (sort (filter (\<lambda>r. JStr r \<notin> seen_variants lessons k) REQUIRED_VARIANTS))"

definition coverage_violations :: "json list \<Rightarrow> string list" where
  "coverage_violations lessons =
     map (coverage_message lessons)
       (filter (\<lambda>k. seen_variants lessons k \<noteq> JStr ` set REQUIRED_VARIANTS) (group_keys lessons))"

text \<open>The Python set that holds the values \<open>vs\<close>, added one after the other.\<close>

definition variant_set :: "json list \<Rightarrow> json list" where
  "variant_set vs = fold (\<lambda>v s. py_set_add s v) vs []"

subsection \<open>Documents of the expected shape\<close>

text \<open>
  The validator has no check of types. These predicates describe the documents on which
  no operation of it is refused: the catalog is a dict whose \<^verbatim>\<open>lessons\<close>, when
  there, is a list of dicts; in a lesson, grade, strand, variant and difficulty are not
  lists or dicts, the mastery rule is a dict, a list or a str when it is not false, and
  the items, when there, are a list of dicts.
\<close>

fun is_dict :: "json \<Rightarrow> bool" where
  "is_dict (JObj d) = True"
| "is_dict v = False"

fun has_members :: "json \<Rightarrow> bool" where
  "has_members (JObj d) = True"
| "has_members (JArr xs) = True"
| "has_members (JStr s) = True"
| "has_members v = False"

definition lesson_shape :: "json \<Rightarrow> bool" where
  "lesson_shape lesson =
     (case lesson of
        JObj d \<Rightarrow>
          py_hashable (dict_get d ''grade'' JNull) \<and> py_hashable (dict_get d ''strandID'' JNull)
          \<and> py_hashable (dict_get d ''variant'' JNull)
          \<and> py_hashable (dict_get d ''difficulty'' JNull)
          \<and> (if py_truthy (dict_get d ''masteryRule'' JNull)
               then has_members (dict_get d ''masteryRule'' JNull) else True)
          \<and> (case dict_get d ''items'' (JArr []) of
                JArr items \<Rightarrow> list_all is_dict items
              | _ \<Rightarrow> False)
      | _ \<Rightarrow> False)"

definition catalog_shape :: "json \<Rightarrow> bool" where
  "catalog_shape catalog =
     (case catalog of
        JObj doc \<Rightarrow>
          (case dict_get doc ''lessons'' (JArr []) of
             JArr lessons \<Rightarrow> list_all lesson_shape lessons
           | _ \<Rightarrow> False)
      | _ \<Rightarrow> False)"

text \<open>A lesson that breaks no rule, its variant left aside.\<close>

definition valid_apart_from_variant :: "dict \<Rightarrow> bool" where
  "valid_apart_from_variant d =
     (py_truthy (dict_get d ''objectives'' JNull)
      \<and> dict_get d ''difficulty'' JNull \<in> JStr ` set REQUIRED_DIFFICULTIES
      \<and> py_truthy (dict_get d ''hints'' JNull)
      \<and> py_truthy (dict_get d ''scaffolds'' JNull)
      \<and> (case dict_get d ''masteryRule'' JNull of
            JObj m \<Rightarrow> ''scoreThreshold'' \<in> set (map fst m) \<and> ''minimumItems'' \<in> set (map fst m)
          | _ \<Rightarrow> False)
      \<and> (case dict_get d ''items'' (JArr []) of
            JArr items \<Rightarrow>
              list_all (\<lambda>item. is_dict item
                          \<and> py_truthy (dict_get (lesson_fields item) ''hints'' JNull)
                          \<and> py_truthy (dict_get (lesson_fields item) ''scaffolds'' JNull)) items
          | _ \<Rightarrow> False))"

text \<open>The text \<^verbatim>\<open>['challenge', 'practice', 'remediation']\<close>.\<close>

definition allowed_set_text :: string where
  "allowed_set_text =
     ''['' @ [CHR 0x27] @ ''challenge'' @ [CHR 0x27] @ '', '' @ [CHR 0x27] @ ''practice''
       @ [CHR 0x27] @ '', '' @ [CHR 0x27] @ ''remediation'' @ [CHR 0x27] @ '']''"

subsection \<open>Example catalogs\<close>

text \<open>
  A lesson with every field filled in, of grade "3" and strand "S1", without items; the
  same lesson without its grade; and a lesson that breaks several rules at once.
\<close>

definition filled_lesson :: "string \<Rightarrow> string \<Rightarrow> dict" where
  "filled_lesson lid variant =
     [(''id'', JStr lid), (''grade'', JStr ''3''), (''strandID'', JStr ''S1''),
      (''variant'', JStr variant), (''difficulty'', JStr ''secure''),
      (''objectives'', JArr [JStr ''count to ten'']), (''hints'', JArr [JStr ''use your fingers'']),
      (''scaffolds'', JArr [JStr ''number line'']),
      (''masteryRule'', JObj [(''scoreThreshold'', JInt 80), (''minimumItems'', JInt 5)])]"

definition ungraded_lesson :: "string \<Rightarrow> string \<Rightarrow> dict" where
  "ungraded_lesson lid variant = filter (\<lambda>kv. fst kv \<noteq> ''grade'') (filled_lesson lid variant)"

definition careless_lesson :: dict where
  "careless_lesson =
     [(''id'', JStr ''L9''), (''grade'', JStr ''3''), (''strandID'', JStr ''S1''),
      (''variant'', JStr ''practice''), (''difficulty'', JStr ''hard''),
      (''objectives'', JArr []), (''hints'', JArr [JStr ''look again'']),
      (''masteryRule'', JObj [(''scoreThreshold'', JInt 80)]),
      (''items'', JArr [JObj [(''hints'', JArr [JStr ''h'']), (''scaffolds'', JArr [JStr ''s''])],
                        JObj [(''hints'', JArr [])]])]"

definition in_strand :: "string \<Rightarrow> dict \<Rightarrow> dict" where
  "in_strand strand d =
     map (\<lambda>kv. if fst kv = ''strandID'' then (''strandID'', JStr strand) else kv) d"

definition catalog_of :: "dict list \<Rightarrow> json" where
  "catalog_of lessons = JObj [(''lessons'', JArr (map JObj lessons))]"

definition quiz_catalog :: json where
  "quiz_catalog = catalog_of [filled_lesson ''L1'' ''quiz'']"

definition two_variant_catalog :: json where
  "two_variant_catalog =
     catalog_of [filled_lesson ''L1'' ''practice'', filled_lesson ''L2'' ''challenge'']"

definition full_catalog :: json where
  "full_catalog =
     catalog_of [filled_lesson ''L1'' ''practice'', filled_lesson ''L2'' ''challenge'',
                 filled_lesson ''L3'' ''remediation'']"

definition quiz_extra_catalog :: json where
  "quiz_extra_catalog =
     catalog_of [filled_lesson ''L1'' ''practice'', filled_lesson ''L2'' ''challenge'',
                 filled_lesson ''L3'' ''remediation'', filled_lesson ''L4'' ''quiz'']"

definition two_strand_catalog :: json where
  "two_strand_catalog =
     catalog_of [in_strand ''S2'' (filled_lesson ''L1'' ''practice''), filled_lesson ''L2'' ''quiz'',
                 in_strand ''S2'' (filled_lesson ''L3'' ''practice'')]"

definition careless_catalog :: json where
  "careless_catalog = catalog_of [filled_lesson ''L1'' ''challenge'', careless_lesson]"

definition ungraded_catalog :: json where
  "ungraded_catalog =
     catalog_of [ungraded_lesson ''L1'' ''practice'', ungraded_lesson ''L2'' ''challenge'',
                 ungraded_lesson ''L3'' ''remediation'']"

text \<open>
  Lessons of grade "3" and strand "S1" on which an operation of the validator is refused:
  one whose variant is a list, and one that breaks rules 1, 3 and 5 and whose difficulty
  is a list.
\<close>

definition list_variant_lesson :: dict where
  "list_variant_lesson =
     map (\<lambda>kv. if fst kv = ''variant'' then (''variant'', JArr [JStr ''quiz'']) else kv)
       (filled_lesson ''L4'' ''quiz'')"


definition list_variant_group_catalog :: json where
  "list_variant_group_catalog =
     catalog_of [filled_lesson ''L1'' ''practice'', list_variant_lesson]"


definition list_variant_extra_catalog :: json where
  "list_variant_extra_catalog =
     catalog_of [filled_lesson ''L1'' ''practice'', filled_lesson ''L2'' ''challenge'',
                 filled_lesson ''L3'' ''remediation'', list_variant_lesson]"

definition unhashable_variant_catalog :: json where
  "unhashable_variant_catalog =
     JObj [(''lessons'', JArr [JObj [(''id'', JStr ''L1''), (''variant'', JArr [])]])]"

section \<open>Properties\<close>

subsection \<open>Auxiliary facts\<close>

lemma py_eq_refl [simp]: "py_eq a a"
  by (simp add: py_eq_def split: option.split)

lemma py_eq_sym: "py_eq a b \<Longrightarrow> py_eq b a"
  by (auto simp: py_eq_def split: option.splits)

lemma py_eq_trans: "py_eq a b \<Longrightarrow> py_eq b c \<Longrightarrow> py_eq a c"
  by (auto simp: py_eq_def split: option.splits)

lemma py_eq_JStr [simp]: "py_eq (JStr s) x \<longleftrightarrow> x = JStr s"
  by (cases x) (auto simp: py_eq_def)

lemma py_eq_JStr2 [simp]: "py_eq x (JStr s) \<longleftrightarrow> x = JStr s"
  by (cases x) (auto simp: py_eq_def)

lemma key_eq_refl [simp]: "key_eq k k"
  by (simp add: key_eq_def)

lemma key_eq_sym: "key_eq a b \<Longrightarrow> key_eq b a"
  by (simp add: key_eq_def py_eq_sym)

lemma key_eq_trans: "key_eq a b \<Longrightarrow> key_eq b c \<Longrightarrow> key_eq a c"
  unfolding key_eq_def by (blast intro: py_eq_trans)

lemma py_in_iff: "py_in x s \<longleftrightarrow> (\<exists>y\<in>set s. py_eq y x)"
  by (simp add: py_in_def list_ex_iff)

lemma py_in_JStr: "py_in (JStr r) s \<longleftrightarrow> JStr r \<in> set s"
  by (auto simp: py_in_iff)

lemma py_in_map_JStr: "py_in x (map JStr rs) \<longleftrightarrow> x \<in> JStr ` set rs"
  by (auto simp: py_in_iff)

lemma py_sorted_order: "set_order order \<Longrightarrow> py_sorted order xs = sort xs"
  unfolding py_sorted_def set_order_def
  by (metis properties_for_sort sorted_sort mset_sort)

lemma append_if_eq: "append_if c m es = es @ (if c then [m] else [])"
  by (simp add: append_if_def)

lemma check_items_obj:
  "check_items lid index (JObj d # rest) errs =
   check_items lid (Suc index) rest (errs @ item_violations lid (index, JObj d))"
  by (simp add: Let_def append_if_eq item_violations_def lesson_fields_def)

lemma check_items_Inr:
  "check_items lid index items errs = Inr errs' \<Longrightarrow>
   errs' = errs @ concat (map (item_violations lid) (enumerate index items))
   \<and> list_all (\<lambda>i. \<exists>d. i = JObj d) items"
proof (induction items arbitrary: index errs)
  case Nil
  then show ?case by simp
next
  case (Cons item rest)
  from Cons.prems obtain d where d: "item = JObj d"
    by (cases item) auto
  from Cons.prems have "check_items lid (Suc index) rest (errs @ item_violations lid (index, JObj d)) = Inr errs'"
    unfolding d check_items_obj .
  from Cons.IH [OF this] show ?case
    by (simp add: d)
qed


lemma if_Inl_eq_Inr: "((if c then Inl e else y) = Inr r) \<longleftrightarrow> (\<not> c \<and> y = Inr r)"
  by simp

lemma case_Inl_eq_Inr:
  "((case x of Inl e \<Rightarrow> Inl e | Inr b \<Rightarrow> f b) = Inr r) \<longleftrightarrow> (\<exists>b. x = Inr b \<and> f b = Inr r)"
  by (cases x) auto

lemma objectives_step:
  "append_if (\<not> py_truthy (dict_get d ''objectives'' JNull))
     (py_str (dict_get d ''id'' (JStr ''<missing>'')) @ '': objectives must not be empty'') es
   = es @ objectives_violation d"
  by (simp add: append_if_def objectives_violation_def lesson_id_text_def)

lemma variant_step:
  "append_if (\<not> py_in (dict_get d ''variant'' JNull) (map JStr REQUIRED_VARIANTS))
     (py_str (dict_get d ''id'' (JStr ''<missing>'')) @ '': variant '' @ [CHR 0x27]
        @ py_str (dict_get d ''variant'' JNull) @ [CHR 0x27] @ '' is not one of ''
        @ py_repr (JArr (map JStr (sort REQUIRED_VARIANTS)))) es
   = es @ variant_violation d"
  by (simp add: append_if_def variant_violation_def lesson_id_text_def py_in_map_JStr)

lemma difficulty_step:
  "append_if (\<not> py_in (dict_get d ''difficulty'' JNull) (map JStr REQUIRED_DIFFICULTIES))
     (py_str (dict_get d ''id'' (JStr ''<missing>'')) @ '': difficulty '' @ [CHR 0x27]
        @ py_str (dict_get d ''difficulty'' JNull) @ [CHR 0x27] @ '' is not recognised'') es
   = es @ difficulty_violation d"
  by (simp add: append_if_def difficulty_violation_def lesson_id_text_def py_in_map_JStr)

lemma hints_step:
  "append_if (\<not> py_truthy (dict_get d ''hints'' JNull))
     (py_str (dict_get d ''id'' (JStr ''<missing>'')) @ '': must provide at least one lesson hint'') es
   = es @ hints_violation d"
  by (simp add: append_if_def hints_violation_def lesson_id_text_def)

lemma scaffolds_step:
  "append_if (\<not> py_truthy (dict_get d ''scaffolds'' JNull))
     (py_str (dict_get d ''id'' (JStr ''<missing>'')) @ '': must provide at least one lesson scaffold'') es
   = es @ scaffolds_violation d"
  by (simp add: append_if_def scaffolds_violation_def lesson_id_text_def)

lemma threshold_step:
  assumes "py_contains (if py_truthy (dict_get d ''masteryRule'' JNull)
                        then dict_get d ''masteryRule'' JNull else JObj []) ''scoreThreshold'' = Inr b"
  shows "append_if (\<not> b)
     (py_str (dict_get d ''id'' (JStr ''<missing>'')) @ '': masteryRule missing scoreThreshold'') es
   = es @ threshold_violation d"
  using assms
  by (simp add: append_if_def threshold_violation_def lesson_id_text_def mastery_has_def Let_def)

lemma minimum_step:
  assumes "py_contains (if py_truthy (dict_get d ''masteryRule'' JNull)
                        then dict_get d ''masteryRule'' JNull else JObj []) ''minimumItems'' = Inr b"
  shows "append_if (\<not> b)
     (py_str (dict_get d ''id'' (JStr ''<missing>'')) @ '': masteryRule missing minimumItems'') es
   = es @ minimum_violation d"
  using assms
  by (simp add: append_if_def minimum_violation_def lesson_id_text_def mastery_has_def Let_def)

lemma visit_lesson_Inr:
  assumes "set_order order" and "visit_lesson order st l = Inr st'"
  shows "errors st' = errors st @ lesson_violations l"
    and "variants_by_strand st' =
           add_variant (variants_by_strand st) (lesson_key l) (lesson_variant l)"
    and "\<exists>d. l = JObj d"
proof -
  from assms(2) obtain d where d: "l = JObj d"
    by (cases l) (simp_all add: visit_lesson_def)
  show "\<exists>d. l = JObj d" using d by blast
  note A = assms(2) [unfolded d visit_lesson_def Let_def json.case py_sorted_order [OF assms(1)]
      objectives_step variant_step difficulty_step hints_step scaffolds_step
      if_Inl_eq_Inr case_Inl_eq_Inr]
  from A obtain b1 b2 items e8 where
    b1: "py_contains (if py_truthy (dict_get d ''masteryRule'' JNull)
           then dict_get d ''masteryRule'' JNull else JObj []) ''scoreThreshold'' = Inr b1" and
    b2: "py_contains (if py_truthy (dict_get d ''masteryRule'' JNull)
           then dict_get d ''masteryRule'' JNull else JObj []) ''minimumItems'' = Inr b2" and
    items: "py_iter (dict_get d ''items'' (JArr [])) = Inr items" and
    e8: "check_items (py_str (dict_get d ''id'' (JStr ''<missing>''))) 0 items
           (append_if (\<not> b2)
              (py_str (dict_get d ''id'' (JStr ''<missing>'')) @ '': masteryRule missing minimumItems'')
              (append_if (\<not> b1)
                 (py_str (dict_get d ''id'' (JStr ''<missing>'')) @ '': masteryRule missing scoreThreshold'')
                 ((((errors st @ objectives_violation d) @ variant_violation d)
                     @ difficulty_violation d) @ hints_violation d @ scaffolds_violation d))) = Inr e8" and
    st': "st' = \<lparr>errors = e8, variants_by_strand =
             add_variant (variants_by_strand st)
               (dict_get d ''grade'' (JStr ''<missing>''), dict_get d ''strandID'' (JStr ''<missing>''))
               (dict_get d ''variant'' JNull)\<rparr>"
    by auto
  show "variants_by_strand st' =
          add_variant (variants_by_strand st) (lesson_key l) (lesson_variant l)"
    by (simp add: st' d lesson_key_def lesson_variant_def lesson_fields_def)
  from check_items_Inr [OF e8] show "errors st' = errors st @ lesson_violations l"
    by (simp add: st' d lesson_violations_def lesson_fields_def Let_def items_violations_def
          lesson_items_def items threshold_step [OF b1] minimum_step [OF b2] lesson_id_text_def)
qed


lemma scan_lessons_Inr:
  assumes "set_order order"
  shows "scan_lessons order st ls = Inr st' \<Longrightarrow>
    errors st' = errors st @ concat (map lesson_violations ls)
    \<and> variants_by_strand st' =
        fold (\<lambda>l g. add_variant g (lesson_key l) (lesson_variant l)) ls (variants_by_strand st)
    \<and> list_all (\<lambda>l. \<exists>d. l = JObj d) ls"
proof (induction ls arbitrary: st)
  case Nil
  then show ?case by simp
next
  case (Cons l ls)
  from Cons.prems obtain st1 where
    v: "visit_lesson order st l = Inr st1" and s: "scan_lessons order st1 ls = Inr st'"
    by (auto split: sum.splits)
  from visit_lesson_Inr [OF assms v] Cons.IH [OF s] show ?case
    by simp
qed

lemma variant_set_snoc: "variant_set (vs @ [v]) = py_set_add (variant_set vs) v"
  by (simp add: variant_set_def)

lemma variant_set_Nil [simp]: "variant_set [] = []"
  by (simp add: variant_set_def)

lemma set_variant_set: "set (variant_set vs) \<subseteq> set vs"
  by (induction vs rule: rev_induct) (auto simp: variant_set_snoc py_set_add_def)

lemma distinct_variant_set: "distinct (variant_set vs)"
proof (induction vs rule: rev_induct)
  case Nil
  show ?case by simp
next
  case (snoc v vs)
  have "\<not> py_in v (variant_set vs) \<Longrightarrow> v \<notin> set (variant_set vs)"
    using py_eq_refl by (auto simp: py_in_iff)
  with snoc show ?case
    by (auto simp: variant_set_snoc py_set_add_def)
qed

lemma py_in_variant_set: "py_in x (variant_set vs) \<longleftrightarrow> (\<exists>v\<in>set vs. py_eq v x)"
proof (induction vs arbitrary: x rule: rev_induct)
  case Nil
  show ?case by (simp add: py_in_iff)
next
  case (snoc v vs)
  show ?case
  proof (cases "py_in v (variant_set vs)")
    case True
    then obtain w where w: "w \<in> set vs" "py_eq w v"
      using snoc by blast
    have "py_eq v x \<Longrightarrow> py_eq w x"
      using w(2) py_eq_trans by blast
    with True snoc w(1) show ?thesis
      by (auto simp: variant_set_snoc py_set_add_def)
  next
    case False
    with snoc show ?thesis
      by (auto simp: variant_set_snoc py_set_add_def py_in_iff)
  qed
qed

lemma py_in_JStr_variant_set: "py_in (JStr r) (variant_set vs) \<longleftrightarrow> JStr r \<in> set vs"
  by (auto simp: py_in_variant_set)

lemma variant_set_eq_strings:
  assumes "distinct rs"
  shows "py_set_eq (variant_set vs) (map JStr rs) \<longleftrightarrow> set vs = JStr ` set rs"
proof
  assume eq: "py_set_eq (variant_set vs) (map JStr rs)"
  then have len: "length (variant_set vs) = length rs"
    and sub: "set (variant_set vs) \<subseteq> JStr ` set rs"
    by (auto simp: py_set_eq_def list_all_iff py_in_map_JStr)
  have "card (set (variant_set vs)) = card (JStr ` set rs)"
    using len assms distinct_variant_set [of vs]
    by (simp add: distinct_card card_image inj_on_def)
  with sub have s: "set (variant_set vs) = JStr ` set rs"
    by (simp add: card_subset_eq)
  have "x \<in> set (variant_set vs)" if "x \<in> set vs" for x
  proof -
    from that have "py_in x (variant_set vs)"
      using py_in_variant_set py_eq_refl by blast
    then obtain y where y: "y \<in> set (variant_set vs)" "py_eq y x"
      by (auto simp: py_in_iff)
    with s obtain r where "y = JStr r" by auto
    with y show ?thesis by simp
  qed
  with s set_variant_set [of vs] show "set vs = JStr ` set rs"
    by blast
next
  assume eq: "set vs = JStr ` set rs"
  have "x \<in> set (variant_set vs)" if "x \<in> set vs" for x
  proof -
    from that eq obtain r where "x = JStr r" by auto
    with that show ?thesis
      using py_in_JStr_variant_set py_in_JStr by blast
  qed
  with set_variant_set [of vs] have s: "set (variant_set vs) = set vs"
    by blast
  have "length (variant_set vs) = card (set vs)"
    using distinct_variant_set [of vs] s by (metis distinct_card)
  also have "\<dots> = length rs"
    using assms by (simp add: eq card_image inj_on_def distinct_card)
  finally show "py_set_eq (variant_set vs) (map JStr rs)"
    using s eq by (auto simp: py_set_eq_def list_all_iff py_in_map_JStr)
qed

lemma first_keys_ex:
  "(\<exists>k'\<in>set (first_keys ks). key_eq k' k) \<longleftrightarrow> (\<exists>k'\<in>set ks. key_eq k' k)"
proof (induction ks)
  case Nil
  show ?case by simp
next
  case (Cons a ks)
  have "key_eq a k" if "k' \<in> set (first_keys ks)" "key_eq k' k" "key_eq a k'" for k'
    using that key_eq_trans by blast
  with Cons show ?case
    by auto
qed

lemma first_keys_snoc:
  "first_keys (ks @ [k]) =
     (if \<exists>k'\<in>set ks. key_eq k' k then first_keys ks else first_keys ks @ [k])"
  by (induction ks) auto

lemma first_keys_apart: "sorted_wrt (\<lambda>a b. \<not> key_eq a b) (first_keys ks)"
  by (induction ks) (auto simp: sorted_wrt_filter)

lemma add_variant_map:
  assumes "sorted_wrt (\<lambda>a b. \<not> key_eq a b) ks"
  shows "add_variant (map (\<lambda>k. (k, f k)) ks) key v =
     map (\<lambda>k. (k, if key_eq k key then py_set_add (f k) v else f k)) ks
     @ (if \<exists>k\<in>set ks. key_eq k key then [] else [(key, [v])])"
  using assms
proof (induction ks)
  case Nil
  show ?case by simp
next
  case (Cons a ks)
  show ?case
  proof (cases "key_eq a key")
    case True
    have "\<not> key_eq k key" if "k \<in> set ks" for k
      using that Cons.prems True key_eq_trans key_eq_sym by (metis sorted_wrt.simps(2))
    with True show ?thesis by simp
  next
    case False
    with Cons show ?thesis by simp
  qed
qed


lemma groups_built:
  "fold (\<lambda>l g. add_variant g (lesson_key l) (lesson_variant l)) ls [] =
   map (\<lambda>k. (k, variant_set (map lesson_variant (filter (\<lambda>l. key_eq k (lesson_key l)) ls))))
     (group_keys ls)"
proof (induction ls rule: rev_induct)
  case Nil
  show ?case by (simp add: group_keys_def)
next
  case (snoc l ls)
  let ?f = "\<lambda>ls k. variant_set (map lesson_variant (filter (\<lambda>l. key_eq k (lesson_key l)) ls))"
  have old: "?f (ls @ [l]) k =
      (if key_eq k (lesson_key l) then py_set_add (?f ls k) (lesson_variant l) else ?f ls k)" for k
    by (simp add: variant_set_snoc)
  have ex: "(\<exists>k\<in>set (group_keys ls). key_eq k (lesson_key l))
      \<longleftrightarrow> (\<exists>k'\<in>set (map lesson_key ls). key_eq k' (lesson_key l))"
    unfolding group_keys_def by (rule first_keys_ex)
  have new: "?f (ls @ [l]) (lesson_key l) = [lesson_variant l]"
    if "\<not> (\<exists>k'\<in>set (map lesson_key ls). key_eq k' (lesson_key l))"
  proof -
    from that have "filter (\<lambda>l'. key_eq (lesson_key l) (lesson_key l')) ls = []"
      by (auto simp: filter_empty_conv dest: key_eq_sym)
    then show ?thesis
      by (simp add: variant_set_def py_set_add_def py_in_def)
  qed
  have "fold (\<lambda>l g. add_variant g (lesson_key l) (lesson_variant l)) (ls @ [l]) [] =
      add_variant (map (\<lambda>k. (k, ?f ls k)) (group_keys ls)) (lesson_key l) (lesson_variant l)"
    by (simp add: snoc)
  also have "\<dots> = map (\<lambda>k. (k, ?f (ls @ [l]) k)) (group_keys ls)
      @ (if \<exists>k\<in>set (group_keys ls). key_eq k (lesson_key l) then []
         else [(lesson_key l, [lesson_variant l])])"
    unfolding old
    by (rule add_variant_map) (simp add: group_keys_def first_keys_apart)
  also have "\<dots> = map (\<lambda>k. (k, ?f (ls @ [l]) k)) (group_keys (ls @ [l]))"
    using new unfolding ex by (simp add: group_keys_def first_keys_snoc)
  finally show ?case .
qed

lemma report_coverage_eq:
  "report_coverage order errs gs =
   errs @ concat (map (\<lambda>g.
     if py_set_eq (snd g) (map JStr REQUIRED_VARIANTS) then []
     else [py_str (fst (fst g)) @ ''/'' @ py_str (snd (fst g)) @ '' missing lesson variants: ''
             @ py_join '', ''
                 (py_sorted order (filter (\<lambda>r. \<not> py_in (JStr r) (snd g)) REQUIRED_VARIANTS))]) gs)"
  by (induction order errs gs rule: report_coverage.induct) (simp_all add: Let_def)

lemma distinct_REQUIRED_VARIANTS: "distinct REQUIRED_VARIANTS"
  by (simp add: REQUIRED_VARIANTS_def)

lemma sort_missing:
  "sort (filter (\<lambda>r. JStr r \<notin> S) REQUIRED_VARIANTS) =
   sorted_list_of_set (set REQUIRED_VARIANTS - {r. JStr r \<in> S})"
proof -
  have "set (filter (\<lambda>r. JStr r \<notin> S) REQUIRED_VARIANTS) = set REQUIRED_VARIANTS - {r. JStr r \<in> S}"
    by auto
  moreover have "distinct (filter (\<lambda>r. JStr r \<notin> S) REQUIRED_VARIANTS)"
    using distinct_REQUIRED_VARIANTS by simp
  ultimately show ?thesis
    by (metis sorted_list_of_set_sort_remdups distinct_remdups_id)
qed

lemma concat_map_if:
  "concat (map (\<lambda>k. if P k then [] else [f k]) ks) = map f (filter (\<lambda>k. \<not> P k) ks)"
  by (induction ks) simp_all

lemma coverage_of_groups:
  assumes "set_order order"
  shows "report_coverage order errs
      (fold (\<lambda>l g. add_variant g (lesson_key l) (lesson_variant l)) ls [])
    = errs @ coverage_violations ls"
proof -
  have "report_coverage order errs
      (fold (\<lambda>l g. add_variant g (lesson_key l) (lesson_variant l)) ls [])
    = errs @ concat (map (\<lambda>k. if seen_variants ls k = JStr ` set REQUIRED_VARIANTS then []
                               else [coverage_message ls k]) (group_keys ls))"
    unfolding groups_built report_coverage_eq
    by (simp add: o_def variant_set_eq_strings [OF distinct_REQUIRED_VARIANTS]
          py_in_JStr_variant_set py_sorted_order [OF assms]
          seen_variants_def coverage_message_def cong: if_cong)
  then show ?thesis
    by (simp add: coverage_violations_def concat_map_if)
qed

lemma validate_lessons_Inr:
  assumes "set_order order" and "validate_lessons order catalog = Inr errs"
  shows "errs = concat (map lesson_violations (catalog_lessons catalog))
                @ coverage_violations (catalog_lessons catalog)"
    and "list_all (\<lambda>l. \<exists>d. l = JObj d) (catalog_lessons catalog)"
    and "\<exists>doc. catalog = JObj doc"
proof -
  from assms(2) obtain doc where doc: "catalog = JObj doc"
    by (cases catalog) (simp_all add: validate_lessons_def)
  show "\<exists>doc. catalog = JObj doc" using doc by blast
  from assms(2) obtain ls st where
    ls: "py_iter (dict_get doc ''lessons'' (JArr [])) = Inr ls" and
    st: "scan_lessons order \<lparr>errors = [], variants_by_strand = []\<rparr> ls = Inr st" and
    errs: "errs = report_coverage order (errors st) (variants_by_strand st)"
    unfolding doc validate_lessons_def json.case case_Inl_eq_Inr by auto
  have cl: "catalog_lessons catalog = ls"
    by (simp add: catalog_lessons_def doc lesson_fields_def ls)
  from scan_lessons_Inr [OF assms(1) st] coverage_of_groups [OF assms(1)]
  show "errs = concat (map lesson_violations (catalog_lessons catalog))
                @ coverage_violations (catalog_lessons catalog)"
    by (simp add: errs cl)
  from scan_lessons_Inr [OF assms(1) st]
  show "list_all (\<lambda>l. \<exists>d. l = JObj d) (catalog_lessons catalog)"
    by (simp add: cl)
qed

subsection \<open>The claims\<close>

lemma set_order_id: "set_order id"
  by (simp add: set_order_def)

lemma visit_lesson_order:
  assumes "set_order o1" and "set_order o2"
  shows "visit_lesson o1 st l = visit_lesson o2 st l"
  unfolding visit_lesson_def py_sorted_order [OF assms(1)] py_sorted_order [OF assms(2)] ..

lemma scan_lessons_order:
  assumes "set_order o1" and "set_order o2"
  shows "scan_lessons o1 st ls = scan_lessons o2 st ls"
  by (induction ls arbitrary: st) (simp_all add: visit_lesson_order [OF assms] split: sum.splits)

lemma report_coverage_order:
  assumes "set_order o1" and "set_order o2"
  shows "report_coverage o1 errs gs = report_coverage o2 errs gs"
  unfolding report_coverage_eq py_sorted_order [OF assms(1)] py_sorted_order [OF assms(2)] ..

lemma validate_lessons_order:
  assumes "set_order o1" and "set_order o2"
  shows "validate_lessons o1 catalog = validate_lessons o2 catalog"
  unfolding validate_lessons_def scan_lessons_order [OF assms] report_coverage_order [OF assms] ..

text \<open>
  C7. Nothing but the document and the order in which the process iterates its sets goes
  into a run. Two runs on the same document, whatever these orders are, return the same
  list of violations, print the same lines and end with the same status.
\<close>

theorem validation_is_deterministic:
  assumes "set_order o1" and "set_order o2"
  shows "validate_lessons o1 catalog = validate_lessons o2 catalog
    \<and> main o1 path r = main o2 path r
    \<and> exit_status (main o1 path r) = exit_status (main o2 path r)"
proof -
  have "main o1 path r = main o2 path r"
    unfolding main_def join_sorted_grades_def validate_lessons_order [OF assms]
      py_sorted_order [OF assms(1)] py_sorted_order [OF assms(2)] ..
  then show ?thesis
    by (simp add: validate_lessons_order [OF assms])
qed

theorem validation_is_deterministic_witness:
  "set_order id \<and> set_order rev
   \<and> validate_lessons id careless_catalog = validate_lessons rev careless_catalog
   \<and> main id ''catalog.json'' (Parsed full_catalog) = main rev ''catalog.json'' (Parsed full_catalog)
   \<and> exit_status (main id ''catalog.json'' (Parsed full_catalog)) = 0
   \<and> exit_status (main rev ''catalog.json'' (Parsed full_catalog)) = 0"
proof -
  have a: "set_order id" and b: "set_order rev"
    by (simp_all add: set_order_def)
  have c: "exit_status (main id ''catalog.json'' (Parsed full_catalog)) = 0"
    by code_simp
  from validation_is_deterministic [OF a b, of careless_catalog]
    validation_is_deterministic [OF a b, of full_catalog "''catalog.json''" "Parsed full_catalog"]
  show ?thesis using a b c by simp
qed


lemma check_items_total:
  "list_all is_dict items \<Longrightarrow> \<exists>e. check_items lid index items errs = Inr e"
proof (induction items arbitrary: index errs)
  case Nil
  show ?case by simp
next
  case (Cons item rest)
  then obtain d where "item = JObj d"
    by (cases item) auto
  with Cons show ?case
    by (simp add: check_items_obj)
qed

lemma hashable_default: "py_hashable (dict_get d k JNull) \<Longrightarrow> py_hashable (dict_get d k (JStr s))"
  by (simp add: dict_get_def split: option.splits)

lemma has_members_contains: "has_members m \<Longrightarrow> \<exists>b. py_contains m k = Inr b"
  by (cases m) auto

lemma visit_lesson_total:
  assumes "lesson_shape l"
  shows "\<exists>st'. visit_lesson order st l = Inr st'"
proof -
  from assms obtain d where d: "l = JObj d"
    by (cases l) (auto simp: lesson_shape_def)
  from assms obtain items where
    h: "py_hashable (dict_get d ''grade'' (JStr ''<missing>''))"
       "py_hashable (dict_get d ''strandID'' (JStr ''<missing>''))"
       "py_hashable (dict_get d ''variant'' JNull)" "py_hashable (dict_get d ''difficulty'' JNull)" and
    m: "has_members (if py_truthy (dict_get d ''masteryRule'' JNull)
                     then dict_get d ''masteryRule'' JNull else JObj [])" and
    items: "dict_get d ''items'' (JArr []) = JArr items" "list_all is_dict items"
    unfolding d lesson_shape_def
    by (auto simp: hashable_default split: json.splits if_splits)
  from has_members_contains [OF m] obtain b1 b2 where
    b: "py_contains (if py_truthy (dict_get d ''masteryRule'' JNull)
           then dict_get d ''masteryRule'' JNull else JObj []) ''scoreThreshold'' = Inr b1"
       "py_contains (if py_truthy (dict_get d ''masteryRule'' JNull)
           then dict_get d ''masteryRule'' JNull else JObj []) ''minimumItems'' = Inr b2"
    by blast
  show ?thesis
    unfolding d visit_lesson_def Let_def json.case if_Inl_eq_Inr case_Inl_eq_Inr
    using h b items(1) check_items_total [OF items(2)]
    by simp
qed

lemma scan_lessons_total:
  "list_all lesson_shape ls \<Longrightarrow> \<exists>st'. scan_lessons order st ls = Inr st'"
proof (induction ls arbitrary: st)
  case Nil
  show ?case by simp
next
  case (Cons l ls)
  from Cons.prems have "lesson_shape l" and rest: "list_all lesson_shape ls"
    by simp_all
  from visit_lesson_total [OF this(1)] obtain st1 where "visit_lesson order st l = Inr st1"
    by blast
  with Cons.IH [OF rest] show ?case
    by simp
qed

lemma validate_lessons_total:
  assumes "catalog_shape catalog"
  shows "\<exists>errs. validate_lessons order catalog = Inr errs"
proof -
  from assms obtain doc ls where
    "catalog = JObj doc" "dict_get doc ''lessons'' (JArr []) = JArr ls" "list_all lesson_shape ls"
    by (auto simp: catalog_shape_def split: json.splits)
  moreover from scan_lessons_total [OF \<open>list_all lesson_shape ls\<close>]
  obtain st where "scan_lessons order \<lparr>errors = [], variants_by_strand = []\<rparr> ls = Inr st"
    by blast
  ultimately show ?thesis
    by (simp add: validate_lessons_def)
qed

text \<open>
  C3, as amended. On a catalog of the expected shape the validator returns a list of
  messages: none of its operations is refused.
\<close>

theorem shaped_catalog_returns:
  assumes "catalog_shape catalog"
  shows "\<exists>errs. validate_lessons order catalog = Inr errs"
  using assms by (rule validate_lessons_total)

theorem shaped_catalog_returns_witness:
  "catalog_shape careless_catalog \<and> (\<exists>errs. validate_lessons id careless_catalog = Inr errs)"
proof -
  have a: "catalog_shape careless_catalog"
    by code_simp
  from shaped_catalog_returns [OF a] a show ?thesis
    by blast
qed

text \<open>
  C3, as stated, fails: a lesson whose variant is a list is a parsed document, and the
  validator raises TypeError when it adds the list to the set of variants.
\<close>

theorem list_variant_raises:
  "validate_lessons id unhashable_variant_catalog = Inl TypeError"
  by code_simp


text \<open>
  C1, as stated, fails: the lessons of this catalog form the group of grade "3" and
  strand "S1", the variants seen in it are not the required set, and the validator emits
  no coverage violation for it, nor any other message: the variant of the second lesson
  is a list, and adding it to the set of the group raises TypeError.
\<close>

theorem list_variant_group_unreported:
  "(JStr ''3'', JStr ''S1'') \<in> set (group_keys (catalog_lessons list_variant_group_catalog))
   \<and> seen_variants (catalog_lessons list_variant_group_catalog) (JStr ''3'', JStr ''S1'')
       \<noteq> JStr ` set REQUIRED_VARIANTS
   \<and> validate_lessons id list_variant_group_catalog = Inl TypeError"
proof (intro conjI)
  show "(JStr ''3'', JStr ''S1'') \<in> set (group_keys (catalog_lessons list_variant_group_catalog))"
    by code_simp
  have "JStr ''practice'' \<in> seen_variants (catalog_lessons list_variant_group_catalog)
      (JStr ''3'', JStr ''S1'')"
    by code_simp
  moreover have "JArr [JStr ''quiz''] \<in> seen_variants (catalog_lessons list_variant_group_catalog)
      (JStr ''3'', JStr ''S1'')"
    by code_simp
  moreover have "JArr [JStr ''quiz''] \<notin> JStr ` set REQUIRED_VARIANTS"
    by auto
  ultimately show "seen_variants (catalog_lessons list_variant_group_catalog)
      (JStr ''3'', JStr ''S1'') \<noteq> JStr ` set REQUIRED_VARIANTS"
    by metis
  show "validate_lessons id list_variant_group_catalog = Inl TypeError"
    by code_simp
qed

text \<open>
  C1, as amended. When the validator returns, its list ends with the coverage
  violations: going through the groups, a group adds a message exactly when the set of the variants seen
  in it is not the required set, and the message has the grade and strand of the group
  and the required variants that were not seen, sorted.
\<close>

theorem coverage_violation_iff_variants_differ:
  assumes "set_order order" and "validate_lessons order catalog = Inr errs"
  shows "errs = concat (map lesson_violations (catalog_lessons catalog))
     @ concat (map (\<lambda>k.
         if seen_variants (catalog_lessons catalog) k = JStr ` set REQUIRED_VARIANTS then []
         else [py_str (fst k) @ ''/'' @ py_str (snd k) @ '' missing lesson variants: ''
                 @ py_join '', '' (sorted_list_of_set
                     (set REQUIRED_VARIANTS
                        - {r. JStr r \<in> seen_variants (catalog_lessons catalog) k}))])
       (group_keys (catalog_lessons catalog)))"
proof -
  have "coverage_violations ls = concat (map (\<lambda>k.
         if seen_variants ls k = JStr ` set REQUIRED_VARIANTS then []
         else [py_str (fst k) @ ''/'' @ py_str (snd k) @ '' missing lesson variants: ''
                 @ py_join '', '' (sorted_list_of_set
                     (set REQUIRED_VARIANTS - {r. JStr r \<in> seen_variants ls k}))])
       (group_keys ls))" for ls
    by (simp add: coverage_violations_def concat_map_if coverage_message_def sort_missing)
  with validate_lessons_Inr(1) [OF assms] show ?thesis
    by simp
qed

theorem coverage_violation_iff_variants_differ_witness:
  "set_order id
   \<and> validate_lessons id two_variant_catalog = Inr [''3/S1 missing lesson variants: remediation'']
   \<and> group_keys (catalog_lessons two_variant_catalog) = [(JStr ''3'', JStr ''S1'')]
   \<and> [''3/S1 missing lesson variants: remediation''] =
       concat (map lesson_violations (catalog_lessons two_variant_catalog))
       @ concat (map (\<lambda>k.
           if seen_variants (catalog_lessons two_variant_catalog) k = JStr ` set REQUIRED_VARIANTS
           then []
           else [py_str (fst k) @ ''/'' @ py_str (snd k) @ '' missing lesson variants: ''
                   @ py_join '', '' (sorted_list_of_set
                       (set REQUIRED_VARIANTS
                          - {r. JStr r \<in> seen_variants (catalog_lessons two_variant_catalog) k}))])
         (group_keys (catalog_lessons two_variant_catalog)))"
proof (intro conjI)
  show a: "set_order id"
    by (rule set_order_id)
  show b: "validate_lessons id two_variant_catalog
      = Inr [''3/S1 missing lesson variants: remediation'']"
    by code_simp
  show "group_keys (catalog_lessons two_variant_catalog) = [(JStr ''3'', JStr ''S1'')]"
    by code_simp
  show "[''3/S1 missing lesson variants: remediation''] =
       concat (map lesson_violations (catalog_lessons two_variant_catalog))
       @ concat (map (\<lambda>k.
           if seen_variants (catalog_lessons two_variant_catalog) k = JStr ` set REQUIRED_VARIANTS
           then []
           else [py_str (fst k) @ ''/'' @ py_str (snd k) @ '' missing lesson variants: ''
                   @ py_join '', '' (sorted_list_of_set
                       (set REQUIRED_VARIANTS
                          - {r. JStr r \<in> seen_variants (catalog_lessons two_variant_catalog) k}))])
         (group_keys (catalog_lessons two_variant_catalog)))"
    by (rule coverage_violation_iff_variants_differ [OF a b])
qed

text \<open>
  C6. When the validator returns, its list is the violations of the first lesson, then
  those of the second, and so on in the order of the document, and after all of them the
  coverage violations, in the order in which the (grade, strand) pairs first occur
  among the lessons.
\<close>

theorem violations_in_document_then_group_order:
  assumes "set_order order" and "validate_lessons order catalog = Inr errs"
  shows "errs = concat (map lesson_violations (catalog_lessons catalog))
     @ map (coverage_message (catalog_lessons catalog))
         (filter (\<lambda>k. seen_variants (catalog_lessons catalog) k \<noteq> JStr ` set REQUIRED_VARIANTS)
            (first_keys (map lesson_key (catalog_lessons catalog))))"
  using validate_lessons_Inr(1) [OF assms]
  by (simp add: coverage_violations_def group_keys_def)

theorem violations_in_document_then_group_order_witness:
  "set_order id
   \<and> validate_lessons id two_strand_catalog =
       Inr [''L2: variant '' @ [CHR 0x27] @ ''quiz'' @ [CHR 0x27] @ '' is not one of ''
              @ allowed_set_text,
            ''3/S2 missing lesson variants: challenge, remediation'',
            ''3/S1 missing lesson variants: challenge, practice, remediation'']
   \<and> concat (map lesson_violations (catalog_lessons two_strand_catalog))
       @ map (coverage_message (catalog_lessons two_strand_catalog))
         (filter (\<lambda>k. seen_variants (catalog_lessons two_strand_catalog) k
                        \<noteq> JStr ` set REQUIRED_VARIANTS)
            (first_keys (map lesson_key (catalog_lessons two_strand_catalog))))
     = [''L2: variant '' @ [CHR 0x27] @ ''quiz'' @ [CHR 0x27] @ '' is not one of ''
              @ allowed_set_text,
            ''3/S2 missing lesson variants: challenge, remediation'',
            ''3/S1 missing lesson variants: challenge, practice, remediation'']"
proof -
  have a: "set_order id"
    by (rule set_order_id)
  have b: "validate_lessons id two_strand_catalog =
       Inr [''L2: variant '' @ [CHR 0x27] @ ''quiz'' @ [CHR 0x27] @ '' is not one of ''
              @ allowed_set_text,
            ''3/S2 missing lesson variants: challenge, remediation'',
            ''3/S1 missing lesson variants: challenge, practice, remediation'']"
    by code_simp
  from violations_in_document_then_group_order [OF a b] a b show ?thesis
    by simp
qed





text \<open>
  C10, as stated, fails: the fourth lesson of this catalog has a variant that is not one
  of the allowed values, a list, and the variant is not added to the set of its group:
  the loop over the lessons raises TypeError there, so the group, in which the three
  required variants are seen, gets no coverage violation.
\<close>

theorem list_variant_not_added:
  "catalog_lessons list_variant_extra_catalog ! 3 = JObj list_variant_lesson
   \<and> lesson_variant (JObj list_variant_lesson) = JArr [JStr ''quiz'']
   \<and> key_eq (JStr ''3'', JStr ''S1'') (lesson_key (JObj list_variant_lesson))
   \<and> scan_lessons id \<lparr>errors = [], variants_by_strand = []\<rparr>
         (catalog_lessons list_variant_extra_catalog) = Inl TypeError
   \<and> validate_lessons id list_variant_extra_catalog = Inl TypeError"
  by code_simp

text \<open>
  C10, as amended. When the validator returns, the variant of every lesson (\<^verbatim>\<open>None\<close> when the
  lesson has none) is in the set that \<^verbatim>\<open>variants_by_strand\<close> holds for the group of
  the lesson, allowed or not. So a group in which the three required variants are seen,
  and a variant that is not allowed too, gets a coverage violation, whose list of missing
  variants is empty.
\<close>

theorem invalid_variant_still_counted:
  assumes "set_order order" and "validate_lessons order catalog = Inr errs"
    and "l \<in> set (catalog_lessons catalog)"
    and "k \<in> set (group_keys (catalog_lessons catalog))" and "key_eq k (lesson_key l)"
  shows "(\<exists>st vs. scan_lessons order \<lparr>errors = [], variants_by_strand = []\<rparr>
                    (catalog_lessons catalog) = Inr st
            \<and> (k, vs) \<in> set (variants_by_strand st) \<and> py_in (lesson_variant l) vs)
     \<and> (JStr ` set REQUIRED_VARIANTS \<subseteq> seen_variants (catalog_lessons catalog) k
          \<and> lesson_variant l \<notin> JStr ` set REQUIRED_VARIANTS
        \<longrightarrow> py_str (fst k) @ ''/'' @ py_str (snd k) @ '' missing lesson variants: ''
              \<in> set errs)"
proof
  let ?ls = "catalog_lessons catalog"
  from assms(2) obtain doc where doc: "catalog = JObj doc"
    by (cases catalog) (simp_all add: validate_lessons_def)
  from assms(2) obtain ls st where
    ls: "py_iter (dict_get doc ''lessons'' (JArr [])) = Inr ls" and
    st: "scan_lessons order \<lparr>errors = [], variants_by_strand = []\<rparr> ls = Inr st"
    unfolding doc validate_lessons_def json.case case_Inl_eq_Inr by auto
  have cl: "?ls = ls"
    by (simp add: catalog_lessons_def doc lesson_fields_def ls)
  let ?vs = "variant_set (map lesson_variant (filter (\<lambda>l. key_eq k (lesson_key l)) ?ls))"
  from scan_lessons_Inr [OF assms(1) st]
  have "variants_by_strand st = map (\<lambda>k. (k, variant_set (map lesson_variant
            (filter (\<lambda>l. key_eq k (lesson_key l)) ?ls)))) (group_keys ?ls)"
    by (simp add: cl groups_built)
  with assms(4) have "(k, ?vs) \<in> set (variants_by_strand st)"
    by auto
  moreover have "py_in (lesson_variant l) ?vs"
    unfolding py_in_variant_set using assms(3,5) py_eq_refl by fastforce
  ultimately show "\<exists>st vs. scan_lessons order \<lparr>errors = [], variants_by_strand = []\<rparr> ?ls = Inr st
            \<and> (k, vs) \<in> set (variants_by_strand st) \<and> py_in (lesson_variant l) vs"
    using st cl by blast
  show "JStr ` set REQUIRED_VARIANTS \<subseteq> seen_variants ?ls k
          \<and> lesson_variant l \<notin> JStr ` set REQUIRED_VARIANTS
        \<longrightarrow> py_str (fst k) @ ''/'' @ py_str (snd k) @ '' missing lesson variants: ''
              \<in> set errs"
  proof
    assume h: "JStr ` set REQUIRED_VARIANTS \<subseteq> seen_variants ?ls k
          \<and> lesson_variant l \<notin> JStr ` set REQUIRED_VARIANTS"
    have "lesson_variant l \<in> seen_variants ?ls k"
      using assms(3,5) by (auto simp: seen_variants_def)
    with h have ne: "seen_variants ?ls k \<noteq> JStr ` set REQUIRED_VARIANTS"
      by blast
    from h have "filter (\<lambda>r. JStr r \<notin> seen_variants ?ls k) REQUIRED_VARIANTS = []"
      by (auto simp: filter_empty_conv)
    then have "coverage_message ?ls k =
        py_str (fst k) @ ''/'' @ py_str (snd k) @ '' missing lesson variants: ''"
      by (simp add: coverage_message_def)
    moreover have "coverage_message ?ls k \<in> set (coverage_violations ?ls)"
      using assms(4) ne by (simp add: coverage_violations_def)
    ultimately show "py_str (fst k) @ ''/'' @ py_str (snd k) @ '' missing lesson variants: ''
              \<in> set errs"
      using validate_lessons_Inr(1) [OF assms(1,2)] by simp
  qed
qed

theorem invalid_variant_still_counted_witness:
  "set_order id
   \<and> validate_lessons id quiz_extra_catalog =
       Inr [''L4: variant '' @ [CHR 0x27] @ ''quiz'' @ [CHR 0x27] @ '' is not one of ''
              @ allowed_set_text,
            ''3/S1 missing lesson variants: '']
   \<and> JObj (filled_lesson ''L4'' ''quiz'') \<in> set (catalog_lessons quiz_extra_catalog)
   \<and> (JStr ''3'', JStr ''S1'') \<in> set (group_keys (catalog_lessons quiz_extra_catalog))
   \<and> key_eq (JStr ''3'', JStr ''S1'') (lesson_key (JObj (filled_lesson ''L4'' ''quiz'')))
   \<and> JStr ` set REQUIRED_VARIANTS
        \<subseteq> seen_variants (catalog_lessons quiz_extra_catalog) (JStr ''3'', JStr ''S1'')
   \<and> lesson_variant (JObj (filled_lesson ''L4'' ''quiz'')) \<notin> JStr ` set REQUIRED_VARIANTS
   \<and> (\<exists>st vs. scan_lessons id \<lparr>errors = [], variants_by_strand = []\<rparr>
                    (catalog_lessons quiz_extra_catalog) = Inr st
            \<and> ((JStr ''3'', JStr ''S1''), vs) \<in> set (variants_by_strand st)
            \<and> py_in (JStr ''quiz'') vs)
   \<and> ''3/S1 missing lesson variants: ''
        \<in> set [''L4: variant '' @ [CHR 0x27] @ ''quiz'' @ [CHR 0x27] @ '' is not one of ''
                  @ allowed_set_text,
                ''3/S1 missing lesson variants: '']"
proof -
  have a: "set_order id"
    by (rule set_order_id)
  have b: "validate_lessons id quiz_extra_catalog =
       Inr [''L4: variant '' @ [CHR 0x27] @ ''quiz'' @ [CHR 0x27] @ '' is not one of ''
              @ allowed_set_text,
            ''3/S1 missing lesson variants: '']"
    by code_simp
  have c: "JObj (filled_lesson ''L4'' ''quiz'') \<in> set (catalog_lessons quiz_extra_catalog)"
    by code_simp
  have d: "(JStr ''3'', JStr ''S1'') \<in> set (group_keys (catalog_lessons quiz_extra_catalog))"
    by code_simp
  have e: "key_eq (JStr ''3'', JStr ''S1'') (lesson_key (JObj (filled_lesson ''L4'' ''quiz'')))"
    by code_simp
  have f: "JStr ` set REQUIRED_VARIANTS
        \<subseteq> seen_variants (catalog_lessons quiz_extra_catalog) (JStr ''3'', JStr ''S1'')"
    by code_simp
  have g: "lesson_variant (JObj (filled_lesson ''L4'' ''quiz'')) \<notin> JStr ` set REQUIRED_VARIANTS"
    by code_simp
  have v: "lesson_variant (JObj (filled_lesson ''L4'' ''quiz'')) = JStr ''quiz''"
    by code_simp
  from invalid_variant_still_counted [OF a b c d e] f g
  have "(\<exists>st vs. scan_lessons id \<lparr>errors = [], variants_by_strand = []\<rparr>
                    (catalog_lessons quiz_extra_catalog) = Inr st
            \<and> ((JStr ''3'', JStr ''S1''), vs) \<in> set (variants_by_strand st)
            \<and> py_in (JStr ''quiz'') vs)"
    and "''3/S1 missing lesson variants: ''
        \<in> set [''L4: variant '' @ [CHR 0x27] @ ''quiz'' @ [CHR 0x27] @ '' is not one of ''
                  @ allowed_set_text,
                ''3/S1 missing lesson variants: '']"
    unfolding v by simp_all
  with a b c d e f g show ?thesis
    by blast
qed


lemma dict_get_present: "dict_get d k JNull = JStr x \<Longrightarrow> dict_get d k dflt = JStr x"
  by (simp add: dict_get_def split: option.splits)

lemma allowed_set_text_eq: "py_repr (JArr (map JStr (sort REQUIRED_VARIANTS))) = allowed_set_text"
  by code_simp

lemma no_item_violations:
  "list_all (\<lambda>item. is_dict item
       \<and> py_truthy (dict_get (lesson_fields item) ''hints'' JNull)
       \<and> py_truthy (dict_get (lesson_fields item) ''scaffolds'' JNull)) items
   \<Longrightarrow> concat (map (item_violations lid) (enumerate n items)) = []"
  by (induction items arbitrary: n) (simp_all add: item_violations_def)

lemma valid_lesson_shape:
  assumes "valid_apart_from_variant d" and "py_hashable (dict_get d ''variant'' JNull)"
    and "py_hashable (dict_get d ''grade'' JNull)" and "py_hashable (dict_get d ''strandID'' JNull)"
  shows "lesson_shape (JObj d)"
proof -
  from assms(1) obtain m items where
    "dict_get d ''masteryRule'' JNull = JObj m" "dict_get d ''items'' (JArr []) = JArr items"
    "list_all is_dict items" "py_hashable (dict_get d ''difficulty'' JNull)"
    by (auto simp: valid_apart_from_variant_def list_all_iff split: json.splits)
  with assms(2-) show ?thesis
    by (simp add: lesson_shape_def)
qed

lemma valid_lesson_violations:
  assumes "valid_apart_from_variant d"
  shows "lesson_violations (JObj d) = variant_violation d"
proof -
  from assms obtain m items where
    m: "dict_get d ''masteryRule'' JNull = JObj m" "''scoreThreshold'' \<in> set (map fst m)"
       "''minimumItems'' \<in> set (map fst m)" and
    items: "dict_get d ''items'' (JArr []) = JArr items"
       "list_all (\<lambda>item. is_dict item
          \<and> py_truthy (dict_get (lesson_fields item) ''hints'' JNull)
          \<and> py_truthy (dict_get (lesson_fields item) ''scaffolds'' JNull)) items" and
    r: "py_truthy (dict_get d ''objectives'' JNull)" "py_truthy (dict_get d ''hints'' JNull)"
       "py_truthy (dict_get d ''scaffolds'' JNull)"
       "dict_get d ''difficulty'' JNull \<in> JStr ` set REQUIRED_DIFFICULTIES"
    by (auto simp: valid_apart_from_variant_def split: json.splits)
  from m have "m \<noteq> []" by auto
  with m have "mastery_has d ''scoreThreshold''" "mastery_has d ''minimumItems''"
    by (simp_all add: mastery_has_def)
  with r items show ?thesis
    by (simp add: lesson_violations_def lesson_fields_def objectives_violation_def
          difficulty_violation_def hints_violation_def scaffolds_violation_def
          threshold_violation_def minimum_violation_def items_violations_def lesson_items_def
          no_item_violations)
qed

text \<open>
  C2, as amended. A catalog of one lesson that breaks no rule but has the variant
  "quiz" gets two violations: the one of the variant, with "quiz" and the allowed set,
  and the coverage violation of the lesson's group, where all three variants are missing.
  The process ends with status 1.
\<close>

theorem quiz_lesson_two_violations:
  assumes "set_order order"
    and "dict_get doc ''lessons'' (JArr []) = JArr [JObj d]"
    and "valid_apart_from_variant d"
    and "dict_get d ''variant'' JNull = JStr ''quiz''"
    and "dict_get d ''id'' JNull = JStr lid"
    and "dict_get d ''grade'' JNull = JStr grade"
    and "dict_get d ''strandID'' JNull = JStr strand"
  shows "validate_lessons order (JObj doc) =
       Inr [lid @ '': variant '' @ [CHR 0x27] @ ''quiz'' @ [CHR 0x27] @ '' is not one of ''
              @ allowed_set_text,
            grade @ ''/'' @ strand
              @ '' missing lesson variants: challenge, practice, remediation'']
     \<and> exit_status (main order path (Parsed (JObj doc))) = 1"
proof -
  have "lesson_shape (JObj d)"
    using assms(3,4,6,7) by (intro valid_lesson_shape) simp_all
  then have "catalog_shape (JObj doc)"
    by (simp add: catalog_shape_def assms(2))
  from validate_lessons_total [OF this] obtain errs where
    errs: "validate_lessons order (JObj doc) = Inr errs"
    by blast
  have cl: "catalog_lessons (JObj doc) = [JObj d]"
    by (simp add: catalog_lessons_def lesson_fields_def assms(2))
  have quiz: "JStr ''quiz'' \<notin> JStr ` set REQUIRED_VARIANTS"
    by (simp add: REQUIRED_VARIANTS_def)
  have key: "lesson_key (JObj d) = (JStr grade, JStr strand)"
    by (simp add: lesson_key_def lesson_fields_def dict_get_present [OF assms(6)]
          dict_get_present [OF assms(7)])
  have seen: "seen_variants [JObj d] (JStr grade, JStr strand) = {JStr ''quiz''}"
    by (simp add: seen_variants_def key lesson_variant_def lesson_fields_def assms(4))
  have "{JStr ''quiz''} \<noteq> JStr ` set REQUIRED_VARIANTS"
    using quiz by blast
  moreover have "sort (filter (\<lambda>r. JStr r \<notin> {JStr ''quiz''}) REQUIRED_VARIANTS)
      = [''challenge'', ''practice'', ''remediation'']"
    by (simp add: REQUIRED_VARIANTS_def)
  ultimately have cov: "coverage_violations [JObj d] =
      [grade @ ''/'' @ strand @ '' missing lesson variants: challenge, practice, remediation'']"
    by (simp add: coverage_violations_def group_keys_def key seen coverage_message_def)
  have var: "variant_violation d =
      [lid @ '': variant '' @ [CHR 0x27] @ ''quiz'' @ [CHR 0x27] @ '' is not one of ''
         @ allowed_set_text]"
    unfolding variant_violation_def allowed_set_text_eq lesson_id_text_def
      dict_get_present [OF assms(5)] assms(4)
    using quiz by simp
  from validate_lessons_Inr(1) [OF assms(1) errs]
  have "errs = [lid @ '': variant '' @ [CHR 0x27] @ ''quiz'' @ [CHR 0x27] @ '' is not one of ''
              @ allowed_set_text,
            grade @ ''/'' @ strand
              @ '' missing lesson variants: challenge, practice, remediation'']"
    by (simp add: cl valid_lesson_violations [OF assms(3)] var cov)
  with errs show ?thesis
    by (simp add: main_def load_catalog_def exit_status_def)
qed

theorem quiz_lesson_two_violations_witness:
  "set_order id
   \<and> valid_apart_from_variant (filled_lesson ''L1'' ''quiz'')
   \<and> validate_lessons id quiz_catalog =
       Inr [''L1'' @ '': variant '' @ [CHR 0x27] @ ''quiz'' @ [CHR 0x27] @ '' is not one of ''
              @ allowed_set_text,
            ''3'' @ ''/'' @ ''S1''
              @ '' missing lesson variants: challenge, practice, remediation'']
   \<and> exit_status (main id ''catalog.json'' (Parsed quiz_catalog)) = 1"
proof -
  have a: "set_order id"
    by (rule set_order_id)
  have b: "dict_get [(''lessons'', JArr (map JObj [filled_lesson ''L1'' ''quiz'']))]
      ''lessons'' (JArr []) = JArr [JObj (filled_lesson ''L1'' ''quiz'')]"
    by (simp add: dict_get_def)
  have c: "valid_apart_from_variant (filled_lesson ''L1'' ''quiz'')"
    by code_simp
  have d: "dict_get (filled_lesson ''L1'' ''quiz'') ''variant'' JNull = JStr ''quiz''"
    by code_simp
  have e: "dict_get (filled_lesson ''L1'' ''quiz'') ''id'' JNull = JStr ''L1''"
    by code_simp
  have f: "dict_get (filled_lesson ''L1'' ''quiz'') ''grade'' JNull = JStr ''3''"
    by code_simp
  have g: "dict_get (filled_lesson ''L1'' ''quiz'') ''strandID'' JNull = JStr ''S1''"
    by code_simp
  from quiz_lesson_two_violations [OF a b c d e f g, of "''catalog.json''"] a c
  show ?thesis
    unfolding quiz_catalog_def catalog_of_def by blast
qed

text \<open>
  C2, as stated, fails: on the catalog whose only lesson is the filled-in lesson with the
  variant "quiz" the validator returns two violations, not one.
\<close>

theorem quiz_catalog_two_violations:
  "validate_lessons id quiz_catalog =
     Inr [''L1: variant '' @ [CHR 0x27] @ ''quiz'' @ [CHR 0x27] @ '' is not one of ''
            @ allowed_set_text,
          ''3/S1 missing lesson variants: challenge, practice, remediation'']"
  by code_simp


lemma py_sorted_Nil: "set_order order \<Longrightarrow> py_sorted order [] = []"
  by (simp add: py_sorted_order)

lemma str_int_0: "str_int 0 = ''0''"
  by code_simp

text \<open>
  C9. A catalog that is a dict without the key \<^verbatim>\<open>lessons\<close>, or whose
  \<^verbatim>\<open>lessons\<close> is the empty list, has no violation; the summary line counts 0
  lessons and no grade, and the process ends with status 0.
\<close>

theorem no_lessons_no_violations:
  assumes "set_order order"
    and "map_of doc ''lessons'' = None \<or> map_of doc ''lessons'' = Some (JArr [])"
  shows "validate_lessons order (JObj doc) = Inr []
     \<and> main order path (Parsed (JObj doc)) = Inr ([''Validated 0 lessons across grades: ''], 0)
     \<and> exit_status (main order path (Parsed (JObj doc))) = 0"
proof -
  from assms(2) have ls: "dict_get doc ''lessons'' (JArr []) = JArr []"
    by (auto simp: dict_get_def)
  have v: "validate_lessons order (JObj doc) = Inr []"
    by (simp add: validate_lessons_def ls)
  have "main order path (Parsed (JObj doc)) = Inr ([''Validated 0 lessons across grades: ''], 0)"
    by (simp add: main_def load_catalog_def v ls join_sorted_grades_def
          py_sorted_Nil [OF assms(1)] str_int_0)
  with v show ?thesis
    by (simp add: exit_status_def)
qed

theorem no_lessons_no_violations_witness:
  "set_order id
   \<and> map_of [(''version'', JInt 1)] ''lessons'' = None
   \<and> map_of [(''lessons'', JArr [])] ''lessons'' = Some (JArr [])
   \<and> validate_lessons id (JObj [(''version'', JInt 1)]) = Inr []
   \<and> main id ''catalog.json'' (Parsed (JObj [(''version'', JInt 1)]))
       = Inr ([''Validated 0 lessons across grades: ''], 0)
   \<and> validate_lessons id (JObj [(''lessons'', JArr [])]) = Inr []
   \<and> exit_status (main id ''catalog.json'' (Parsed (JObj [(''lessons'', JArr [])]))) = 0"
proof -
  have a: "set_order id"
    by (rule set_order_id)
  have b: "map_of [(''version'', JInt 1)] ''lessons'' = None"
    by simp
  have c: "map_of [(''lessons'', JArr [])] ''lessons'' = Some (JArr [])"
    by simp
  from no_lessons_no_violations [OF a disjI1 [OF b], of "''catalog.json''"]
    no_lessons_no_violations [OF a disjI2 [OF c], of "''catalog.json''"] a b c
  show ?thesis
    by blast
qed

lemma violations_exit_status:
  assumes "validate_lessons order catalog = Inr errs" and "errs \<noteq> []"
  shows "main order path (Parsed catalog)
      = Inr (''Lesson validation failed:'' # map (\<lambda>message. ''  - '' @ message) errs, 1)"
  using assms by (simp add: main_def load_catalog_def)

text \<open>
  C4, on the catalog of three filled-in lessons that have no grade: the validator
  returns the empty list, and the process ends with status 1, not 0, because
  \<^verbatim>\<open>main\<close> raises TypeError while it joins the grades.
\<close>

theorem ungraded_catalog_exit_status:
  "validate_lessons id ungraded_catalog = Inr []
   \<and> exit_status (main id ''catalog.json'' (Parsed ungraded_catalog)) = 1"
  by code_simp

text \<open>
  C8, on the same catalog: the list of violations is empty, and \<^verbatim>\<open>main\<close> prints
  no summary line and returns no status: it raises TypeError, since the grade of a lesson
  without one is \<^verbatim>\<open>None\<close>, which \<^verbatim>\<open>join\<close> refuses. With the grades there, the
  same three lessons get their summary.
\<close>

theorem ungraded_catalog_no_summary:
  "validate_lessons id ungraded_catalog = Inr []
   \<and> main id ''catalog.json'' (Parsed ungraded_catalog) = Inl TypeError
   \<and> main id ''catalog.json'' (Parsed full_catalog)
       = Inr ([''Validated 3 lessons across grades: 3''], 0)"
  by code_simp

end
